theory Spec2Isabelle
  imports Main "HOL-Library.Sublist"
begin

section \<open>JavaScript strings\<close>

text \<open>
  A JavaScript string is a sequence of UTF-16 code units. The parser inspects the escape
  character (27), the byte order mark (65279) and the Unicode white space that
  \<open>String.prototype.trim\<close> removes, so a code unit is a natural number here
  and not an 8-bit \<open>char\<close>. \<open>js\<close> turns a literal into such a string.
\<close>

type_synonym jschar = nat
type_synonym jsstring = "jschar list"

definition js :: "string \<Rightarrow> jsstring" where
  "js s = map of_char s"

definition LF :: jschar where "LF = 10"
definition CR :: jschar where "CR = 13"

text \<open>JS truthiness of a string: the empty string is falsy.\<close>

definition truthy :: "jsstring \<Rightarrow> bool" where
  "truthy s = (s \<noteq> [])"

text \<open>\<open>String.prototype.trim\<close> strips WhiteSpace and LineTerminator code units at both ends.\<close>

definition isTrimChar :: "jschar \<Rightarrow> bool" where
  "isTrimChar c = (c \<in> set [9, 10, 11, 12, 13, 32, 160, 5760, 8232, 8233, 8239, 8287, 12288, 65279]
                   \<or> (8192 \<le> c \<and> c \<le> 8202))"

definition trim :: "jsstring \<Rightarrow> jsstring" where
  "trim s = rev (dropWhile isTrimChar (rev (dropWhile isTrimChar s)))"

text \<open>\<open>str.substr(i, n)\<close> for \<open>i \<ge> 0\<close>, and \<open>str.slice(a, b)\<close>, where a negative
  index counts from the end.\<close>

definition substr :: "jsstring \<Rightarrow> nat \<Rightarrow> nat \<Rightarrow> jsstring" where
  "substr s i n = take n (drop i s)"

definition sliceIndex :: "nat \<Rightarrow> int \<Rightarrow> nat" where
  "sliceIndex len k = (if k < 0 then nat (max (int len + k) 0) else min (nat k) len)"

definition slice :: "jsstring \<Rightarrow> int \<Rightarrow> int \<Rightarrow> jsstring" where
  "slice s a b = (let from = sliceIndex (length s) a; to = sliceIndex (length s) b
                  in take (to - from) (drop from s))"

definition sliceFrom :: "jsstring \<Rightarrow> int \<Rightarrow> jsstring" where
  "sliceFrom s a = drop (sliceIndex (length s) a) s"

text \<open>
  \<open>str.split(/\r\n|\n/)\<close>: the scan goes left to right and tries \<open>\r\n\<close> before
  \<open>\n\<close> at each position; the pieces between the separators are returned, the last
  piece included (it is empty when the string ends with a separator).
\<close>

fun consHead :: "'a \<Rightarrow> 'a list list \<Rightarrow> 'a list list" where
  "consHead c [] = [[c]]"
| "consHead c (p # ps) = (c # p) # ps"

fun splitLines :: "jsstring \<Rightarrow> jsstring list" where
  "splitLines [] = [[]]"
| "splitLines [c] = (if c = LF then [[], []] else [[c]])"
| "splitLines (c # d # cs) =
     (if c = CR \<and> d = LF then [] # splitLines cs
      else if c = LF then [] # splitLines (d # cs)
      else consHead c (splitLines (d # cs)))"

text \<open>Modelled from the spec: \<open>strings.startsWith(haystack, needle)\<close> of
  \<open>vs/base/common/strings\<close> is not among the sources; the spec says "starts with".\<close>

definition startsWith :: "jsstring \<Rightarrow> jsstring \<Rightarrow> bool" where
  "startsWith haystack needle = prefix needle haystack"

text \<open>Modelled from the spec: \<open>strings.stripUTF8BOM\<close> of \<open>vs/base/common/strings\<close> is not
  among the sources; the spec says the parser strips the byte order mark from line 0.\<close>

definition stripUTF8BOM :: "jsstring \<Rightarrow> jsstring" where
  "stripUTF8BOM s = (case s of [] \<Rightarrow> [] | c # cs \<Rightarrow> if c = 65279 then cs else s)"

text \<open>\<open>str.indexOf(sub)\<close>: the first index at which \<open>sub\<close> occurs, or \<open>-1\<close>.\<close>

fun indexOfFrom :: "jsstring \<Rightarrow> jsstring \<Rightarrow> nat \<Rightarrow> int" where
  "indexOfFrom [] sub i = (if sub = [] then int i else -1)"
| "indexOfFrom (c # cs) sub i = (if prefix sub (c # cs) then int i else indexOfFrom cs sub (i + 1))"

definition indexOf :: "jsstring \<Rightarrow> jsstring \<Rightarrow> int" where
  "indexOf s sub = indexOfFrom s sub 0"

text \<open>\<open>str.split(sep)\<close> for a string separator.\<close>

function splitStr :: "jsstring \<Rightarrow> jsstring \<Rightarrow> jsstring list" where
  "splitStr sp s =
     (if sp = [] then map (\<lambda>c. [c]) s
      else if s = [] then [[]]
      else if prefix sp s then [] # splitStr sp (drop (length sp) s)
      else consHead (hd s) (splitStr sp (tl s)))"
  by pat_completeness auto
termination
  by (relation "measure (\<lambda>(sp, s). length s)") auto

declare splitStr.simps [simp del]

text \<open>
  Functions of \<open>vs/base/common/strings\<close> and \<open>vs/base/common/normalization\<close> that are not
  among the sources and that the search code calls on paths and patterns; they are
  parameters of the model.
\<close>

record strings_lib =
  fuzzyContains :: "jsstring \<Rightarrow> jsstring \<Rightarrow> bool"
  stripWildcards :: "jsstring \<Rightarrow> jsstring"
  toLowerCase :: "jsstring \<Rightarrow> jsstring"
  normalizeNFC :: "jsstring \<Rightarrow> jsstring"

text \<open>Node's \<open>path\<close> module, a parameter of the model as well.\<close>

record node_path =
  isAbsolute :: "jsstring \<Rightarrow> bool"
  join :: "jsstring \<Rightarrow> jsstring \<Rightarrow> jsstring"
  pathBasename :: "jsstring \<Rightarrow> jsstring"
  pathDirname :: "jsstring \<Rightarrow> jsstring"
  sep :: jsstring

section \<open>Queries and matches\<close>

text \<open>
  A folder query: the root folder, its exclude expression compiled by
  \<open>AbsoluteAndRelativeParsedExpression\<close> to a test on the relative path, the basename and
  the names of the siblings (\<open>None\<close> when the caller passes no sibling function), and
  whether the exclude globs left no sibling clause for the listing command. The glob
  matcher and \<open>spawnRipgrepCmd\<close> are not among the sources.
\<close>

record IFolderSearch =
  folder :: jsstring
  excludeTest :: "jsstring \<Rightarrow> jsstring \<Rightarrow> jsstring list option \<Rightarrow> bool"
  noSiblingsClauses :: bool

text \<open>
  The query. The include and exclude expressions are given compiled (\<open>glob.parse\<close>), and
  \<open>siblingExcluded\<close> is the test that the text search applies to the path of a file match
  when exclude globs with sibling clauses are left over (\<open>None\<close> when there are none).
\<close>

record IRawSearch =
  folderQueries :: "IFolderSearch list"
  extraFiles :: "jsstring list"
  filePattern :: "jsstring option"
  includePattern :: "(jsstring \<Rightarrow> jsstring \<Rightarrow> bool) option"
  excludePattern :: "(jsstring \<Rightarrow> jsstring \<Rightarrow> bool) option"
  maxResults :: "nat option"
  exists :: bool
  sortByScore :: bool
  cacheKey :: "jsstring option"
  useRipgrep :: "bool option"
  maxFilesize :: "nat option"
  siblingExcluded :: "(jsstring \<Rightarrow> bool) option"

record IRawFileMatch =
  base :: "jsstring option"
  relativePath :: jsstring
  basename :: jsstring
  fsize :: "nat option"

section \<open>The grep output parser (\<open>RipgrepParser\<close>)\<close>

text \<open>\<open>MATCH_START_MARKER = '\u001b[0m\u001b[31m'\<close>, \<open>MATCH_END_MARKER = '\u001b[0m'\<close>.\<close>

definition MATCH_START_MARKER :: jsstring where
  "MATCH_START_MARKER = [27, 91, 48, 109, 27, 91, 51, 49, 109]"

definition MATCH_END_MARKER :: jsstring where
  "MATCH_END_MARKER = [27, 91, 48, 109]"

definition isDigit :: "jschar \<Rightarrow> bool" where
  "isDigit c = (48 \<le> c \<and> c \<le> 57)"

text \<open>The regular expression atom \<open>.\<close> matches every code unit but a line terminator.\<close>

definition isLineTerminator :: "jschar \<Rightarrow> bool" where
  "isLineTerminator c = (c \<in> set [10, 13, 8232, 8233])"

definition notLineTerminator :: "jschar \<Rightarrow> bool" where
  "notLineTerminator c = (\<not> isLineTerminator c)"

text \<open>
  \<open>RESULT_REGEX = /^\u001b\[0m(\d+)\u001b\[0m:(.*)(\r?)/\<close>. The groups are the digits, the
  longest run without a line terminator, and a carriage return when one follows.
\<close>

definition matchResultRegex :: "jsstring \<Rightarrow> (jsstring \<times> jsstring \<times> jsstring) option" where
  "matchResultRegex line =
     (if prefix MATCH_END_MARKER line then
        (let rest = drop 4 line;
             digits = takeWhile isDigit rest;
             rest2 = dropWhile isDigit rest
         in if digits \<noteq> [] \<and> prefix (MATCH_END_MARKER @ [58]) rest2 then
              (let rest3 = drop 5 rest2;
                   txt = takeWhile notLineTerminator rest3;
                   rest4 = dropWhile notLineTerminator rest3
               in Some (digits, txt, (case rest4 of [] \<Rightarrow> [] | c # _ \<Rightarrow> if c = CR then [CR] else [])))
            else None)
      else None)"

text \<open>
  \<open>FILE_REGEX = /^\u001b\[0m(.+)\u001b\[0m$/\<close>: the line starts and ends with the marker
  and the group between them is not empty and holds no line terminator.
\<close>

definition matchFileRegex :: "jsstring \<Rightarrow> jsstring option" where
  "matchFileRegex line =
     (let n = length line; middle = take (n - 8) (drop 4 line)
      in if 9 \<le> n \<and> take 4 line = MATCH_END_MARKER \<and> drop (n - 4) line = MATCH_END_MARKER
            \<and> list_all notLineTerminator middle
         then Some middle else None)"

text \<open>\<open>parseInt\<close> on a run of decimal digits.\<close>

definition parseInt :: "jsstring \<Rightarrow> int" where
  "parseInt ds = foldl (\<lambda>acc c. 10 * acc + (int c - 48)) 0 ds"

record Range =
  startLineNumber :: int
  startColumn :: int
  endLineNumber :: int
  endColumn :: int

text \<open>
  \<open>new Range(a, b, c, d)\<close> of \<open>vs/editor/common/core/range\<close> swaps the two positions when
  the start lies after the end.
\<close>

definition newRange :: "int \<Rightarrow> int \<Rightarrow> int \<Rightarrow> int \<Rightarrow> Range" where
  "newRange sl sc el ec =
     (if sl > el \<or> (sl = el \<and> sc > ec)
      then \<lparr>startLineNumber = el, startColumn = ec, endLineNumber = sl, endColumn = sc\<rparr>
      else \<lparr>startLineNumber = sl, startColumn = sc, endLineNumber = el, endColumn = ec\<rparr>)"

text \<open>A \<open>TextSearchResult\<close> keeps the preview text and the range; a \<open>FileMatch\<close> the
  absolute path and the matches added so far.\<close>

record TextSearchResult =
  preview :: jsstring
  range :: Range

record FileMatch =
  path :: jsstring
  matches :: "TextSearchResult list"

datatype parser_event = Result FileMatch | HitLimit

datatype parser_error = GotMatchLineForUnknownFile

text \<open>The cap is \<open>None\<close> when the query leaves \<open>maxResults\<close> undefined; a comparison with
  \<open>undefined\<close> is false.\<close>

record RipgrepParser =
  maxResults :: "nat option"
  rootFolder :: jsstring
  extraSearchFiles :: "jsstring list"
  fileMatch :: "FileMatch option"
  remainder :: "jsstring option"
  isDone :: bool
  numResults :: nat
  emitted :: "parser_event list"

text \<open>A throw carries the events emitted before it.\<close>

type_synonym parser_result = "(parser_error \<times> parser_event list) + RipgrepParser"

definition newRipgrepParser :: "nat option \<Rightarrow> jsstring \<Rightarrow> jsstring list \<Rightarrow> RipgrepParser" where
  "newRipgrepParser maxR root files =
     \<lparr>RipgrepParser.maxResults = maxR, rootFolder = root, extraSearchFiles = files, fileMatch = None,
      remainder = None, isDone = False, numResults = 0, emitted = []\<rparr>"

definition cancel :: "RipgrepParser \<Rightarrow> RipgrepParser" where
  "cancel p = p\<lparr>isDone := True\<rparr>"

definition onResult :: "RipgrepParser \<Rightarrow> RipgrepParser" where
  "onResult p = (case fileMatch p of
       None \<Rightarrow> p
     | Some fm \<Rightarrow> p\<lparr>emitted := emitted p @ [Result fm], fileMatch := None\<rparr>)"

text \<open>\<open>getFileMatch\<close> resolves a relative path against the root folder.\<close>

definition getFileMatch :: "node_path \<Rightarrow> RipgrepParser \<Rightarrow> jsstring \<Rightarrow> FileMatch" where
  "getFileMatch np p relativeOrAbsolutePath =
     \<lparr>path = (if isAbsolute np relativeOrAbsolutePath then relativeOrAbsolutePath
              else join np (rootFolder p) relativeOrAbsolutePath),
      matches = []\<rparr>"

text \<open>The local variables of the loop of \<open>handleMatchLine\<close>.\<close>

record scan =
  pos :: nat
  lastMatchEndPos :: nat
  matchTextStartPos :: int
  matchTextStartRealIdx :: int
  textRealIdx :: nat
  hitLimit :: bool
  matchRanges :: "Range list"
  realTextParts :: "jsstring list"
  count :: nat

definition scanStart :: "nat \<Rightarrow> scan" where
  "scanStart n = \<lparr>pos = 0, lastMatchEndPos = 0, matchTextStartPos = -1, matchTextStartRealIdx = -1,
                  textRealIdx = 0, hitLimit = False, matchRanges = [], realTextParts = [], count = n\<rparr>"

definition reached :: "nat \<Rightarrow> nat option \<Rightarrow> bool" where
  "reached n maxR = (case maxR of None \<Rightarrow> False | Some k \<Rightarrow> n \<ge> k)"

function scanMatchLine :: "nat option \<Rightarrow> jsstring \<Rightarrow> int \<Rightarrow> scan \<Rightarrow> scan" where
  "scanMatchLine maxR txt lineNum s =
     (if int (pos s) < int (length txt) - (int (length MATCH_END_MARKER) - 1) then
        (if substr txt (pos s) (length MATCH_START_MARKER) = MATCH_START_MARKER then
           scanMatchLine maxR txt lineNum
             (s\<lparr>realTextParts := realTextParts s @ [slice txt (int (lastMatchEndPos s)) (int (pos s))],
                pos := pos s + length MATCH_START_MARKER,
                matchTextStartPos := int (pos s + length MATCH_START_MARKER),
                matchTextStartRealIdx := int (textRealIdx s)\<rparr>)
         else if substr txt (pos s) (length MATCH_END_MARKER) = MATCH_END_MARKER then
           scanMatchLine maxR txt lineNum
             (s\<lparr>realTextParts := realTextParts s @ [slice txt (matchTextStartPos s) (int (pos s))],
                matchRanges := (if hitLimit s then matchRanges s
                                else matchRanges s @
                                  [newRange lineNum (matchTextStartRealIdx s) lineNum (int (textRealIdx s))]),
                matchTextStartPos := -1,
                matchTextStartRealIdx := -1,
                pos := pos s + length MATCH_END_MARKER,
                lastMatchEndPos := pos s + length MATCH_END_MARKER,
                count := count s + 1,
                hitLimit := (hitLimit s \<or> reached (count s + 1) maxR)\<rparr>)
         else scanMatchLine maxR txt lineNum (s\<lparr>pos := pos s + 1, textRealIdx := textRealIdx s + 1\<rparr>))
      else s)"
  by pat_completeness auto
termination
  by (relation "measure (\<lambda>(maxR, txt, lineNum, s). length txt - pos s)")
     (auto simp: MATCH_END_MARKER_def MATCH_START_MARKER_def)

declare scanMatchLine.simps [simp del]

definition handleMatchLine :: "node_path \<Rightarrow> RipgrepParser \<Rightarrow> int \<Rightarrow> jsstring \<Rightarrow> parser_result" where
  "handleMatchLine np p lineNum txt0 =
     (let txt = (if lineNum = 0 then stripUTF8BOM txt0 else txt0) in
      case (case fileMatch p of
              Some fm \<Rightarrow> Some fm
            | None \<Rightarrow> (case extraSearchFiles p of
                         [] \<Rightarrow> None
                       | singleFile # _ \<Rightarrow> if truthy singleFile then Some (getFileMatch np p singleFile) else None)) of
        None \<Rightarrow> Inl (GotMatchLineForUnknownFile, emitted p)
      | Some fm \<Rightarrow>
         (let s = scanMatchLine (RipgrepParser.maxResults p) txt lineNum (scanStart (numResults p));
              parts = realTextParts s @ [sliceFrom txt (int (lastMatchEndPos s))];
              pv = concat parts;
              fm' = fm\<lparr>matches := matches fm @ map (\<lambda>r. \<lparr>preview = pv, range = r\<rparr>) (matchRanges s)\<rparr>;
              p' = p\<lparr>fileMatch := Some fm', numResults := count s\<rparr>
          in if hitLimit s
             then (let p'' = onResult (cancel p') in Inr (p''\<lparr>emitted := emitted p'' @ [HitLimit]\<rparr>))
             else Inr p'))"

text \<open>One iteration of the loop of \<open>handleDecodedData\<close>, after the \<open>isDone\<close> test.\<close>

definition handleLine :: "node_path \<Rightarrow> RipgrepParser \<Rightarrow> jsstring \<Rightarrow> parser_result" where
  "handleLine np p dataLine =
     (let outputLine = trim dataLine in
      case matchResultRegex outputLine of
        Some (r1, r2, r3) \<Rightarrow>
          handleMatchLine np p (parseInt r1 - 1) (if truthy r3 then r2 @ MATCH_END_MARKER else r2)
      | None \<Rightarrow>
         (case matchFileRegex outputLine of
            Some r1 \<Rightarrow> Inr ((onResult p)\<lparr>fileMatch := Some (getFileMatch np p r1)\<rparr>)
          | None \<Rightarrow> Inr p))"

fun handleLines :: "node_path \<Rightarrow> RipgrepParser \<Rightarrow> jsstring list \<Rightarrow> parser_result" where
  "handleLines np p [] = Inr p"
| "handleLines np p (l # ls) =
     (if isDone p then Inr p
      else (case handleLine np p l of
              Inl e \<Rightarrow> Inl e
            | Inr p' \<Rightarrow> handleLines np p' ls))"

definition handleDecodedData :: "node_path \<Rightarrow> RipgrepParser \<Rightarrow> jsstring \<Rightarrow> parser_result" where
  "handleDecodedData np p decodedData =
     (let dataStr = (case remainder p of
                       Some r \<Rightarrow> if truthy r then r @ decodedData else decodedData
                     | None \<Rightarrow> decodedData);
          dataLines = splitLines dataStr
      in if truthy (last dataLines)
         then handleLines np (p\<lparr>remainder := Some (last dataLines)\<rparr>) (butlast dataLines)
         else handleLines np (p\<lparr>remainder := None\<rparr>) dataLines)"

text \<open>\<open>flush\<close>; \<open>decoderEnd\<close> is what \<open>stringDecoder.end()\<close> returns, the empty string
  unless the byte stream stopped inside a character.\<close>

definition flush :: "node_path \<Rightarrow> RipgrepParser \<Rightarrow> jsstring \<Rightarrow> parser_result" where
  "flush np p decoderEnd =
     (case handleDecodedData np p decoderEnd of
        Inl e \<Rightarrow> Inl e
      | Inr p' \<Rightarrow> Inr (onResult p'))"


text \<open>Feeding the decoded chunks one at a time, and the whole run of a child process:
  the chunks, then \<open>flush\<close> on close.\<close>

fun handleChunks :: "node_path \<Rightarrow> RipgrepParser \<Rightarrow> jsstring list \<Rightarrow> parser_result" where
  "handleChunks np p [] = Inr p"
| "handleChunks np p (c # cs) =
     (case handleDecodedData np p c of Inl e \<Rightarrow> Inl e | Inr p' \<Rightarrow> handleChunks np p' cs)"

definition parseChunks :: "node_path \<Rightarrow> RipgrepParser \<Rightarrow> jsstring list \<Rightarrow> parser_result" where
  "parseChunks np p chunks =
     (case handleChunks np p chunks of Inl e \<Rightarrow> Inl e | Inr p' \<Rightarrow> flush np p' [])"

text \<open>The text carried over from the previous chunk, and the remainder a last piece leaves.\<close>

definition carried :: "RipgrepParser \<Rightarrow> jsstring" where
  "carried p = (case remainder p of Some r \<Rightarrow> r | None \<Rightarrow> [])"

definition toRemainder :: "jsstring \<Rightarrow> jsstring option" where
  "toRemainder s = (if s = [] then None else Some s)"

text \<open>A simple instance of Node's path functions, for running the model on POSIX paths
  below the root folder \<open>/\<close>: a path is absolute when it starts with a slash, and joining
  appends.\<close>

definition plainPath :: node_path where
  "plainPath = \<lparr>isAbsolute = (\<lambda>p. prefix [47] p), join = (\<lambda>a b. a @ b),
                 pathBasename = (\<lambda>p. rev (takeWhile (\<lambda>c. c \<noteq> 47) (rev p))),
                 pathDirname = (\<lambda>p. if 47 \<in> set p then rev (tl (dropWhile (\<lambda>c. c \<noteq> 47) (rev p))) else [46]),
                 sep = [47]\<rparr>"

section \<open>The grep driver (\<open>RipgrepEngine\<close>)\<close>

text \<open>
  \<open>rgErrorMsgForDisplay\<close> reads the first line of stderr and returns a message for display,
  or \<open>undefined\<close> (here \<open>None\<close>), from a whitelist. \<open>String.prototype.toUpperCase\<close> is a
  parameter. \<open>strings.uppercaseFirstLetter\<close> is not among the sources.
\<close>

text \<open>Modelled from the spec: \<open>strings.uppercaseFirstLetter\<close> of \<open>vs/base/common/strings\<close>
  is not among the sources; it upper-cases the first code unit, as the branch for glob and
  encoding errors does in place.\<close>

definition uppercaseFirstLetter :: "(jsstring \<Rightarrow> jsstring) \<Rightarrow> jsstring \<Rightarrow> jsstring" where
  "uppercaseFirstLetter toUpperCase str = toUpperCase (take 1 str) @ drop 1 str"

definition literalNewlineNotAllowed :: jsstring where
  "literalNewlineNotAllowed = js ''Literal '' @ [39, 92, 110, 39] @ js '' not allowed.''"

definition literalNewlineNotSupported :: jsstring where
  "literalNewlineNotSupported = js ''Literal '' @ [39, 92, 110, 39] @ js '' currently not supported''"

definition rgErrorMsgForDisplay :: "(jsstring \<Rightarrow> jsstring) \<Rightarrow> jsstring \<Rightarrow> jsstring option" where
  "rgErrorMsgForDisplay toUpperCase msg =
     (let lines = splitStr [LF] (trim msg);
          firstLine = trim (hd lines)
      in if startsWith firstLine (js ''Error parsing regex'') then Some firstLine
         else if startsWith firstLine (js ''regex parse error'')
           then Some (uppercaseFirstLetter toUpperCase (trim (last lines)))
         else if startsWith firstLine (js ''error parsing glob'')
                 \<or> startsWith firstLine (js ''unsupported encoding'')
           then Some (toUpperCase (take 1 firstLine) @ drop 1 firstLine)
         else if firstLine = literalNewlineNotAllowed then Some literalNewlineNotSupported
         else if startsWith firstLine (js ''Literal '') then Some firstLine
         else None)"

text \<open>\<open>toUpperCase\<close> on ASCII text, for running the model.\<close>

definition asciiUpper :: "jsstring \<Rightarrow> jsstring" where
  "asciiUpper s = map (\<lambda>c. if 97 \<le> c \<and> c \<le> 122 then c - 32 else c) s"

text \<open>
  What the driver does to the outside: the three callbacks of \<open>search\<close> (\<open>done\<close> with the
  error message, if any, and \<open>limitHit\<close>), starting the child and signalling it.
\<close>

datatype engine_output =
    OnResult FileMatch
  | OnMessage jsstring
  | OnCommandLine
  | Done "jsstring option" bool
  | Spawn
  | Kill

datatype engine_error = TypeError | ParserThrew parser_error

record RipgrepEngine =
  config :: IRawSearch
  engineIsDone :: bool
  rgProc :: bool
  ripgrepParser :: "RipgrepParser option"
  gotData :: bool
  stderr :: jsstring
  outs :: "engine_output list"

type_synonym engine_result = "(engine_error \<times> engine_output list) + RipgrepEngine"

definition newRipgrepEngine :: "IRawSearch \<Rightarrow> RipgrepEngine" where
  "newRipgrepEngine cfg =
     \<lparr>config = cfg, engineIsDone = False, rgProc = False, ripgrepParser = None,
      gotData = False, stderr = [], outs = []\<rparr>"

text \<open>\<open>RipgrepEngine.cancel\<close>: it reads \<open>this.ripgrepParser\<close> and \<open>this.rgProc\<close>, which are
  unset before \<open>search\<close> started a child and after the child closed.\<close>

definition engineCancel :: "RipgrepEngine \<Rightarrow> engine_result" where
  "engineCancel e =
     (case ripgrepParser e of
        None \<Rightarrow> Inl (TypeError, outs e)
      | Some p \<Rightarrow>
          if rgProc e
          then Inr (e\<lparr>engineIsDone := True, ripgrepParser := Some (cancel p), outs := outs e @ [Kill]\<rparr>)
          else Inl (TypeError, outs e))"

text \<open>The listeners for the parser's \<open>result\<close> and \<open>hitLimit\<close> events.\<close>

definition onParserResult :: "RipgrepEngine \<Rightarrow> FileMatch \<Rightarrow> RipgrepEngine" where
  "onParserResult e fm =
     (case siblingExcluded (config e) of
        Some excluded \<Rightarrow> if excluded (path fm) then e else e\<lparr>outs := outs e @ [OnResult fm]\<rparr>
      | None \<Rightarrow> e\<lparr>outs := outs e @ [OnResult fm]\<rparr>)"

definition onParserHitLimit :: "RipgrepEngine \<Rightarrow> engine_result" where
  "onParserHitLimit e =
     (case engineCancel e of
        Inl err \<Rightarrow> Inl err
      | Inr e' \<Rightarrow> Inr (e'\<lparr>outs := outs e' @ [Done None True]\<rparr>))"

fun dispatch :: "RipgrepEngine \<Rightarrow> parser_event list \<Rightarrow> engine_result" where
  "dispatch e [] = Inr e"
| "dispatch e (Result fm # evs) = dispatch (onParserResult e fm) evs"
| "dispatch e (HitLimit # evs) =
     (case onParserHitLimit e of Inl err \<Rightarrow> Inl err | Inr e' \<Rightarrow> dispatch e' evs)"

text \<open>
  A call into the parser from a listener of the child: the events the call emits reach the
  driver's listeners, and a throw ends the run after the events emitted before it. The
  flag of the parser that the driver's \<open>cancel\<close> sets during the call is kept.
\<close>

definition callParser :: "RipgrepEngine \<Rightarrow> (RipgrepParser \<Rightarrow> parser_result) \<Rightarrow> engine_result" where
  "callParser e f =
     (case ripgrepParser e of
        None \<Rightarrow> Inl (TypeError, outs e)
      | Some p \<Rightarrow>
         (case f (p\<lparr>emitted := []\<rparr>) of
            Inl (err, evs) \<Rightarrow>
              (case dispatch e evs of
                 Inl x \<Rightarrow> Inl x
               | Inr e' \<Rightarrow> Inl (ParserThrew err, outs e'))
          | Inr p' \<Rightarrow> dispatch (e\<lparr>ripgrepParser := Some p'\<rparr>) (emitted p')))"

text \<open>\<open>search\<close> up to the point where the listeners are installed.\<close>

definition search :: "IRawSearch \<Rightarrow> RipgrepEngine" where
  "search cfg =
     (let e = newRipgrepEngine cfg in
      if folderQueries cfg = [] \<and> extraFiles cfg = []
      then e\<lparr>outs := [Done None False]\<rparr>
      else e\<lparr>outs := [OnCommandLine, Spawn], rgProc := True,
             ripgrepParser := Some (newRipgrepParser (IRawSearch.maxResults cfg) [47] (extraFiles cfg))\<rparr>)"

text \<open>The listeners of the child: stdout data, stderr data, and close with the exit code.\<close>

definition onStdoutData :: "node_path \<Rightarrow> RipgrepEngine \<Rightarrow> jsstring \<Rightarrow> engine_result" where
  "onStdoutData np e d =
     (case callParser e (\<lambda>p. handleDecodedData np p d) of
        Inl x \<Rightarrow> Inl x
      | Inr e' \<Rightarrow> Inr (e'\<lparr>gotData := True\<rparr>))"

definition onStderrData :: "RipgrepEngine \<Rightarrow> jsstring \<Rightarrow> RipgrepEngine" where
  "onStderrData e d = e\<lparr>outs := outs e @ [OnMessage d], stderr := stderr e @ d\<rparr>"

definition onClose :: "node_path \<Rightarrow> (jsstring \<Rightarrow> jsstring) \<Rightarrow> RipgrepEngine \<Rightarrow> int \<Rightarrow> engine_result" where
  "onClose np toUpperCase e code =
     (case callParser e (\<lambda>p. flush np p []) of
        Inl x \<Rightarrow> Inl x
      | Inr e1 \<Rightarrow>
         (let e2 = e1\<lparr>rgProc := False\<rparr> in
          if \<not> engineIsDone e2 then
            (let e3 = e2\<lparr>engineIsDone := True\<rparr> in
             case (if truthy (stderr e3) \<and> \<not> gotData e3
                   then rgErrorMsgForDisplay toUpperCase (stderr e3) else None) of
               Some displayMsg \<Rightarrow>
                 if truthy displayMsg
                 then Inr (e3\<lparr>outs := outs e3 @ [Done (Some displayMsg) False]\<rparr>)
                 else Inr (e3\<lparr>outs := outs e3 @ [Done None False]\<rparr>)
             | None \<Rightarrow> Inr (e3\<lparr>outs := outs e3 @ [Done None False]\<rparr>))
          else Inr e2))"

text \<open>What reaches the driver after \<open>search\<close>: the events of the child, and a request to
  cancel from the caller.\<close>

datatype engine_event = StdoutData jsstring | StderrData jsstring | Close int | CancelRequested

fun engineStep :: "node_path \<Rightarrow> (jsstring \<Rightarrow> jsstring) \<Rightarrow> RipgrepEngine \<Rightarrow> engine_event \<Rightarrow> engine_result" where
  "engineStep np up e (StdoutData d) = onStdoutData np e d"
| "engineStep np up e (StderrData d) = Inr (onStderrData e d)"
| "engineStep np up e (Close code) = onClose np up e code"
| "engineStep np up e CancelRequested = engineCancel e"

fun engineRun :: "node_path \<Rightarrow> (jsstring \<Rightarrow> jsstring) \<Rightarrow> RipgrepEngine \<Rightarrow> engine_event list \<Rightarrow> engine_result" where
  "engineRun np up e [] = Inr e"
| "engineRun np up e (ev # evs) =
     (case engineStep np up e ev of Inl x \<Rightarrow> Inl x | Inr e' \<Rightarrow> engineRun np up e' evs)"

text \<open>What the run did to the outside, whether it ended by a throw or not.\<close>

definition outputs :: "engine_result \<Rightarrow> engine_output list" where
  "outputs r = (case r of Inl (err, out) \<Rightarrow> out | Inr e \<Rightarrow> outs e)"

text \<open>An output of the child cut into three chunks, inside a marker and inside a line
  ending: a file header and one matching line.\<close>

definition exampleChunks :: "jsstring list" where
  "exampleChunks =
     [MATCH_END_MARKER @ js ''/f'' @ [27, 91],
      [48, 109, LF] @ MATCH_END_MARKER @ js ''1'' @ MATCH_END_MARKER @ js '':''
        @ MATCH_START_MARKER @ js ''x'' @ MATCH_END_MARKER @ [CR],
      [LF]]"

section \<open>The batched collector (\<open>BatchedCollector\<close>)\<close>

text \<open>
  The callback receives one item or a list of items. Sizes are counts of matches. The stored
  handle of \<open>setTimeout\<close> is read for its truthiness only, so it is a flag; \<open>timer\<close> is the
  time in milliseconds at which the pending timeout fires, if one is pending.
\<close>

datatype 'a delivery = Single 'a | Batch "'a list"













text \<open>A text-search query without folders and without extra files.\<close>

definition emptyQuery :: IRawSearch where
  "emptyQuery =
     \<lparr>folderQueries = [], extraFiles = [], filePattern = None, includePattern = None,
      excludePattern = None, maxResults = Some 10, exists = False, sortByScore = False,
      cacheKey = None, useRipgrep = Some True, maxFilesize = None, siblingExcluded = None\<rparr>"

section \<open>The prefix cache of sorted file searches\<close>

text \<open>
  A promise is modelled by the value it settles to. A cache row holds the promise of the
  engine's completion (its \<open>limitHit\<close>) with all results, and whether it was resolved when
  the row was read. \<open>resultsToSearchCache\<close> is an object keyed by file pattern; the list
  gives its keys in the order in which \<open>for ... in\<close> visits them.
\<close>

text \<open>The errors a root folder can end with: the child failed to start or to run
  (\<open>cmd.on('error')\<close>), it closed with a failure, or its output could not be split.\<close>

datatype walk_error = ProcessError jsstring | CommandFailed int jsstring | SplittingFailed

datatype search_error = Canceled | Failed jsstring | WalkFailed walk_error

datatype 'a settled = Fulfilled 'a | Rejected search_error




record IFileSearchStats =
  fromCache :: bool
  resultCount :: nat

record ISerializedSearchSuccess =
  limitHit :: bool
  stats :: IFileSearchStats



text \<open>\<open>typeof config.maxResults === 'number' && results.length > config.maxResults\<close>.\<close>

definition exceeds :: "nat \<Rightarrow> nat option \<Rightarrow> bool" where
  "exceeds n maxR = (case maxR of None \<Rightarrow> False | Some k \<Rightarrow> n > k)"



text \<open>
  Instances of the parameters for running the model on ASCII text: a fuzzy test that looks
  for the code units of the query in their order in the lower-cased target, and a
  \<open>sortResults\<close> that keeps the order and cuts at the cap.
\<close>

definition asciiLower :: "jsstring \<Rightarrow> jsstring" where
  "asciiLower s = map (\<lambda>c. if 65 \<le> c \<and> c \<le> 90 then c + 32 else c) s"

fun inOrder :: "jsstring \<Rightarrow> jsstring \<Rightarrow> bool" where
  "inOrder [] target = True"
| "inOrder (q # qs) [] = False"
| "inOrder (q # qs) (t # ts) = (if q = t then inOrder qs ts else inOrder (q # qs) ts)"

definition asciiStrings :: strings_lib where
  "asciiStrings =
     \<lparr>fuzzyContains = (\<lambda>target query. target \<noteq> [] \<and> query \<noteq> [] \<and> length query \<le> length target
                          \<and> inOrder query (asciiLower target)),
      stripWildcards = filter (\<lambda>c. c \<noteq> 42),
      toLowerCase = asciiLower,
      normalizeNFC = (\<lambda>s. s)\<rparr>"





section \<open>The file walker (\<open>FileWalker\<close>)\<close>

datatype Traversal = Node | MacFind | WindowsDir | LinuxFind | Ripgrep

datatype platform = Macintosh | Linux | Windows

text \<open>
  The walker: the fields its constructor derives from the query, its counters and flags,
  and \<open>results\<close>, the candidates handed to \<open>onResult\<close> so far, in order.
\<close>

record FileWalker =
  useRipgrep :: bool
  filePattern :: "jsstring option"
  normalizedFilePatternLowercase :: jsstring
  includePattern :: "(jsstring \<Rightarrow> jsstring \<Rightarrow> bool) option"
  globalExcludePattern :: "(jsstring \<Rightarrow> jsstring \<Rightarrow> bool) option"
  maxResults :: "nat option"
  exists :: bool
  maxFilesize :: "nat option"
  isLimitHit :: bool
  resultCount :: nat
  isCanceled :: bool
  directoriesWalked :: nat
  filesWalked :: nat
  errors :: "walk_error list"
  cmdResultCount :: nat
  results :: "IRawFileMatch list"

text \<open>\<open>x || null\<close> on a number: zero is falsy.\<close>

definition orNull :: "nat option \<Rightarrow> nat option" where
  "orNull x = (case x of None \<Rightarrow> None | Some n \<Rightarrow> if n = 0 then None else Some n)"

definition newFileWalker :: "strings_lib \<Rightarrow> IRawSearch \<Rightarrow> FileWalker" where
  "newFileWalker lib cfg =
     \<lparr>useRipgrep = (IRawSearch.useRipgrep cfg \<noteq> Some False),
      filePattern = IRawSearch.filePattern cfg,
      normalizedFilePatternLowercase =
        (case IRawSearch.filePattern cfg of
           None \<Rightarrow> []
         | Some fp \<Rightarrow> if truthy fp then toLowerCase lib (stripWildcards lib fp) else []),
      includePattern = IRawSearch.includePattern cfg,
      globalExcludePattern = excludePattern cfg,
      maxResults = orNull (IRawSearch.maxResults cfg),
      exists = IRawSearch.exists cfg,
      maxFilesize = orNull (IRawSearch.maxFilesize cfg),
      isLimitHit = False, resultCount = 0, isCanceled = False, directoriesWalked = 0,
      filesWalked = 0, errors = [], cmdResultCount = 0, results = []\<rparr>"

definition walkerCancel :: "FileWalker \<Rightarrow> FileWalker" where
  "walkerCancel w = w\<lparr>isCanceled := True\<rparr>"

definition isFilePatternMatch :: "strings_lib \<Rightarrow> FileWalker \<Rightarrow> jsstring \<Rightarrow> bool" where
  "isFilePatternMatch lib w p =
     (case FileWalker.filePattern w of
        None \<Rightarrow> True
      | Some fp \<Rightarrow>
          if truthy fp then
            (if fp = [42] then True
             else fuzzyContains lib p (normalizedFilePatternLowercase w))
          else True)"

text \<open>\<open>this.maxResults && this.resultCount > this.maxResults\<close>.\<close>

definition overCap :: "nat \<Rightarrow> nat option \<Rightarrow> bool" where
  "overCap n maxR = (case maxR of None \<Rightarrow> False | Some k \<Rightarrow> k \<noteq> 0 \<and> n > k)"

definition matchFile :: "strings_lib \<Rightarrow> FileWalker \<Rightarrow> IRawFileMatch \<Rightarrow> FileWalker" where
  "matchFile lib w candidate =
     (if isFilePatternMatch lib w (relativePath candidate)
         \<and> (case FileWalker.includePattern w of
               None \<Rightarrow> True
             | Some incl \<Rightarrow> incl (relativePath candidate) (basename candidate))
      then
        (let w1 = w\<lparr>resultCount := resultCount w + 1\<rparr>;
             w2 = (if FileWalker.exists w1 \<or> overCap (resultCount w1) (FileWalker.maxResults w1)
                   then w1\<lparr>isLimitHit := True\<rparr> else w1)
         in if \<not> isLimitHit w2 then w2\<lparr>results := results w2 @ [candidate]\<rparr> else w2)
      else w)"

text \<open>The body of the loop of \<open>walk\<close> over the extra files.\<close>

definition matchExtraFile :: "strings_lib \<Rightarrow> node_path \<Rightarrow> FileWalker \<Rightarrow> jsstring \<Rightarrow> FileWalker" where
  "matchExtraFile lib np w extraFilePath =
     (let bn = pathBasename np extraFilePath in
      if (case globalExcludePattern w of None \<Rightarrow> False | Some excl \<Rightarrow> excl extraFilePath bn)
      then w
      else matchFile lib w \<lparr>base = None, relativePath = extraFilePath, basename = bn, fsize = None\<rparr>)"

subsection \<open>The directory tree\<close>

text \<open>
  \<open>pathToEntries\<close> maps a relative directory path to its entries; \<open>rootEntries\<close> is the
  array stored under the key \<open>.\<close>, which is never replaced, so the tree is the map alone.
\<close>

type_synonym IDirectoryTree = "jsstring \<rightharpoonup> IRawFileMatch list"

definition initDirectoryTree :: IDirectoryTree where
  "initDirectoryTree = [[46] \<mapsto> []]"

definition rootEntries :: "IDirectoryTree \<Rightarrow> IRawFileMatch list" where
  "rootEntries t = (case t [46] of None \<Rightarrow> [] | Some es \<Rightarrow> es)"

definition pushEntry :: "IDirectoryTree \<Rightarrow> jsstring \<Rightarrow> IRawFileMatch \<Rightarrow> IDirectoryTree" where
  "pushEntry t dir e = t(dir \<mapsto> (case t dir of None \<Rightarrow> [] | Some es \<Rightarrow> es) @ [e])"

text \<open>
  The local function \<open>add\<close> of \<open>addDirectoryEntries\<close> calls itself on the directory name
  until it meets a directory that the tree knows. Its depth is bounded by the fuel; \<open>None\<close>
  stands for a recursion that does not come back within it.
\<close>

fun add :: "nat \<Rightarrow> node_path \<Rightarrow> jsstring \<Rightarrow> IDirectoryTree \<Rightarrow> jsstring \<Rightarrow> IDirectoryTree option" where
  "add 0 np bs t rel = None"
| "add (Suc n) np bs t rel =
     (let bn = pathBasename np rel; dir = pathDirname np rel;
          e = \<lparr>base = Some bs, relativePath = rel, basename = bn, fsize = None\<rparr>
      in case t dir of
           Some es \<Rightarrow> Some (pushEntry t dir e)
         | None \<Rightarrow>
            (case add n np bs (t(dir \<mapsto> [])) dir of
               None \<Rightarrow> None
             | Some t' \<Rightarrow> Some (pushEntry t' dir e)))"

fun addAll :: "nat \<Rightarrow> node_path \<Rightarrow> jsstring \<Rightarrow> IDirectoryTree \<Rightarrow> jsstring list \<Rightarrow> IDirectoryTree option" where
  "addAll n np bs t [] = Some t"
| "addAll n np bs t (rel # rels) =
     (case add n np bs t rel of None \<Rightarrow> None | Some t' \<Rightarrow> addAll n np bs t' rels)"

text \<open>\<open>addDirectoryEntries\<close>: the match of the file pattern taken as a relative path comes
  first, then the entries are added.\<close>

definition matchFilePatternAsPath :: "strings_lib \<Rightarrow> node_path \<Rightarrow> FileWalker \<Rightarrow> jsstring \<Rightarrow> jsstring list \<Rightarrow> FileWalker" where
  "matchFilePatternAsPath lib np w bs relativeFiles =
     (case FileWalker.filePattern w of
        None \<Rightarrow> w
      | Some fp \<Rightarrow>
          if fp \<in> set relativeFiles
          then matchFile lib w \<lparr>base = Some bs, relativePath = fp, basename = pathBasename np fp, fsize = None\<rparr>
          else w)"

definition addDirectoryEntries ::
  "nat \<Rightarrow> strings_lib \<Rightarrow> node_path \<Rightarrow> FileWalker \<Rightarrow> IDirectoryTree \<Rightarrow> jsstring \<Rightarrow> jsstring list
     \<Rightarrow> FileWalker \<times> IDirectoryTree option" where
  "addDirectoryEntries fuel lib np w t bs relativeFiles =
     (matchFilePatternAsPath lib np w bs relativeFiles, addAll fuel np bs t relativeFiles)"

text \<open>
  \<open>matchDirectoryTree\<close>: the local function \<open>matchDirectory\<close> and its loop over the entries
  of one directory. The second component tells whether the call came back within the fuel.
\<close>

fun matchDirectory ::
  "nat \<Rightarrow> strings_lib \<Rightarrow> IFolderSearch \<Rightarrow> IDirectoryTree \<Rightarrow> FileWalker \<Rightarrow> IRawFileMatch list
     \<Rightarrow> FileWalker \<times> bool"
and matchEntries ::
  "nat \<Rightarrow> strings_lib \<Rightarrow> IFolderSearch \<Rightarrow> IDirectoryTree \<Rightarrow> FileWalker \<Rightarrow> IRawFileMatch list
     \<Rightarrow> IRawFileMatch list \<Rightarrow> FileWalker \<times> bool"
where
  "matchDirectory 0 lib fq t w entries = (w, False)"
| "matchDirectory (Suc n) lib fq t w entries =
     matchEntries n lib fq t (w\<lparr>directoriesWalked := directoriesWalked w + 1\<rparr>) entries entries"
| "matchEntries n lib fq t w entries [] = (w, True)"
| "matchEntries n lib fq t w entries (entry # rest) =
     (if excludeTest fq (relativePath entry) (basename entry)
           (if FileWalker.filePattern w \<noteq> Some (basename entry) then Some (map basename entries) else None)
      then matchEntries n lib fq t w entries rest
      else
        (case t (relativePath entry) of
           Some sub \<Rightarrow>
             (case matchDirectory n lib fq t w sub of
                (w', back) \<Rightarrow>
                  if \<not> back then (w', False)
                  else if isLimitHit w' then (w', True)
                  else matchEntries n lib fq t w' entries rest)
         | None \<Rightarrow>
             (let w1 = w\<lparr>filesWalked := filesWalked w + 1\<rparr> in
              if Some (relativePath entry) = FileWalker.filePattern w1
              then matchEntries n lib fq t w1 entries rest
              else
                (let w2 = matchFile lib w1 entry in
                 if isLimitHit w2 then (w2, True)
                 else matchEntries n lib fq t w2 entries rest))))"

definition matchDirectoryTree ::
  "nat \<Rightarrow> strings_lib \<Rightarrow> IFolderSearch \<Rightarrow> IDirectoryTree \<Rightarrow> FileWalker \<Rightarrow> FileWalker \<times> bool" where
  "matchDirectoryTree fuel lib fq t w = matchDirectory fuel lib fq t w (rootEntries t)"

subsection \<open>The traversal of the root folders\<close>

text \<open>The loop of \<open>cmdTraversal\<close> over the listed files when the listing command applied
  every exclude; the flag tells whether \<open>killCmd\<close> was called.\<close>

fun matchFiles :: "strings_lib \<Rightarrow> node_path \<Rightarrow> jsstring \<Rightarrow> FileWalker \<Rightarrow> jsstring list \<Rightarrow> FileWalker \<times> bool" where
  "matchFiles lib np rootF w [] = (w, False)"
| "matchFiles lib np rootF w (rel # rels) =
     (let w' = matchFile lib w \<lparr>base = Some rootF, relativePath = rel,
                                basename = pathBasename np rel, fsize = None\<rparr>
      in if isLimitHit w' then (w', True) else matchFiles lib np rootF w' rels)"

text \<open>
  What \<open>cmdTraversal\<close> and \<open>collectStdout\<close> keep for one root folder: the unfinished last
  line, the flag for the first chunk of \<open>find\<close>, the directory tree, whether \<open>done\<close> and
  \<open>onData\<close> have been replaced by the empty function, whether stdout gave data, the stderr
  text, whether the child was signalled, and what the root reported to \<open>flow.parallel\<close>.
\<close>

record cmd_state =
  leftover :: jsstring
  first :: bool
  tree :: IDirectoryTree
  doneCalled :: bool
  onDataOff :: bool
  gotDataW :: bool
  stderrW :: jsstring
  killed :: bool
  rootOutcome :: "walk_error option option"

definition newCmdState :: cmd_state where
  "newCmdState =
     \<lparr>leftover = [], first = True, tree = initDirectoryTree, doneCalled = False, onDataOff = False,
      gotDataW = False, stderrW = [], killed = False, rootOutcome = None\<rparr>"

text \<open>
  A walk in progress: the walker, the traversal chosen, the folder queries and the state of
  each of them, the call of \<open>done\<close> with the first error and \<open>isLimitHit\<close> once it was made,
  and whether a recursion over the directory tree never came back.
\<close>

record walk_state =
  walker :: FileWalker
  traversal :: Traversal
  folders :: "IFolderSearch list"
  roots :: "cmd_state list"
  finished :: "(walk_error option \<times> bool) option"
  crashed :: bool

definition firstError :: "cmd_state list \<Rightarrow> walk_error option" where
  "firstError rs =
     (case List.map_filter (\<lambda>r. case rootOutcome r of Some (Some e) \<Rightarrow> Some e | _ \<Rightarrow> None) rs of
        [] \<Rightarrow> None
      | e # _ \<Rightarrow> Some e)"

text \<open>Modelled from the spec: \<open>flow.parallel\<close> of \<open>vs/base/node/flow\<close> is not among the
  sources; the spec says that the roots are traversed in parallel, that an error of one
  root leaves the others running, and that completion is signalled when every root has
  finished. \<open>rootDone\<close> is the \<open>done\<close> of \<open>cmdTraversal\<close> together with the callback that
  \<open>walk\<close> gives to the traversal and the final callback of \<open>walk\<close>.\<close>

definition rootDone :: "walk_state \<Rightarrow> nat \<Rightarrow> walk_error option \<Rightarrow> walk_state" where
  "rootDone st i err =
     (let r = roots st ! i in
      if doneCalled r then st
      else
        (let w = walker st;
             w' = (case err of None \<Rightarrow> w | Some e \<Rightarrow> w\<lparr>errors := errors w @ [e]\<rparr>);
             rs = (roots st)[i := r\<lparr>doneCalled := True, rootOutcome := Some err\<rparr>];
             st' = st\<lparr>walker := w', roots := rs\<rparr>
         in if list_all (\<lambda>r. rootOutcome r \<noteq> None) rs
            then st'\<lparr>finished := Some (firstError rs, isLimitHit w')\<rparr>
            else st'))"

text \<open>The lines of a chunk: \<open>relativeFiles\<close> after the split and the handling of the first
  and the last piece, the new \<open>leftover\<close> and the new \<open>first\<close>.\<close>

definition chunkFiles :: "bool \<Rightarrow> cmd_state \<Rightarrow> jsstring \<Rightarrow> bool \<Rightarrow> jsstring list \<times> jsstring \<times> bool" where
  "chunkFiles useRg r normalized isLast =
     (let files0 = splitStr (if useRg then [LF] else [LF, 46, 47]) normalized;
          strip = (\<not> useRg \<and> first r \<and> length normalized \<ge> 2);
          files1 = (if strip then drop 2 (trim (hd files0)) # tl files0 else files0);
          files2 = (if isLast
                    then (if truthy (trim (last files1)) then butlast files1 @ [trim (last files1)]
                          else butlast files1)
                    else butlast files1)
      in (files2, (if isLast then leftover r else last files1), (if strip then False else first r)))"

text \<open>
  The callback that \<open>cmdTraversal\<close> gives to \<open>collectStdout\<close>, for root \<open>i\<close>. Every path
  through it ends with or without a call of \<open>done\<close>; the body gives the state before that
  call and the argument of the call, if it is made.
\<close>

definition cmdCallbackBody ::
  "nat \<Rightarrow> strings_lib \<Rightarrow> node_path \<Rightarrow> platform \<Rightarrow> walk_state \<Rightarrow> nat \<Rightarrow> walk_error option
     \<Rightarrow> jsstring \<Rightarrow> bool \<Rightarrow> walk_state \<times> walk_error option option" where
  "cmdCallbackBody fuel lib np pf st i err stdout isLast =
     (case err of
        Some e \<Rightarrow> (st, Some (Some e))
      | None \<Rightarrow>
         if isLimitHit (walker st) then (st, Some None)
         else
          (let r = roots st ! i; fq = folders st ! i; w = walker st;
               useRg = FileWalker.useRipgrep w;
               normalized = leftover r @ (if pf = Macintosh then normalizeNFC lib stdout else stdout)
           in case chunkFiles useRg r normalized isLast of
             (relativeFiles, leftover', first') \<Rightarrow>
               (let r1 = r\<lparr>leftover := leftover', first := first'\<rparr> in
                if relativeFiles \<noteq> [] \<and> indexOf (hd relativeFiles) [LF] \<noteq> -1
                then (st\<lparr>roots := (roots st)[i := r1]\<rparr>, Some (Some SplittingFailed))
                else
                 (let w1 = w\<lparr>cmdResultCount := cmdResultCount w + length relativeFiles\<rparr> in
                  if useRg \<and> noSiblingsClauses fq then
                    (case matchFiles lib np (folder fq) w1 relativeFiles of
                       (w2, kill) \<Rightarrow>
                         (st\<lparr>walker := w2,
                             roots := (roots st)[i := r1\<lparr>killed := (killed r1 \<or> kill)\<rparr>]\<rparr>,
                          if isLast \<or> isLimitHit w2 then Some None else None))
                  else
                    (case addDirectoryEntries fuel lib np w1 (tree r1) (folder fq) relativeFiles of
                       (w2, None) \<Rightarrow> (st\<lparr>walker := w2, crashed := True\<rparr>, None)
                     | (w2, Some t2) \<Rightarrow>
                         (let st2 = st\<lparr>walker := w2, roots := (roots st)[i := r1\<lparr>tree := t2\<rparr>]\<rparr> in
                          if isLast then
                            (case matchDirectoryTree fuel lib fq t2 w2 of
                               (w3, bk) \<Rightarrow>
                                 if bk then (st2\<lparr>walker := w3\<rparr>, Some None)
                                 else (st2\<lparr>walker := w3, crashed := True\<rparr>, None))
                          else (st2, None)))))))"

definition cmdCallback ::
  "nat \<Rightarrow> strings_lib \<Rightarrow> node_path \<Rightarrow> platform \<Rightarrow> walk_state \<Rightarrow> nat \<Rightarrow> walk_error option
     \<Rightarrow> jsstring \<Rightarrow> bool \<Rightarrow> walk_state" where
  "cmdCallback fuel lib np pf st i err stdout isLast =
     (case cmdCallbackBody fuel lib np pf st i err stdout isLast of
        (st', None) \<Rightarrow> st'
      | (st', Some e) \<Rightarrow> rootDone st' i e)"

text \<open>
  The listeners that \<open>collectStdout\<close> installs on the child of root \<open>i\<close>. The stdout listener
  holds the first \<open>onData\<close>; the listeners for \<open>error\<close> and \<open>close\<close> call the variable
  \<open>onData\<close>, which is the empty function after an error or the last call.
\<close>

definition onStdout ::
  "nat \<Rightarrow> strings_lib \<Rightarrow> node_path \<Rightarrow> platform \<Rightarrow> walk_state \<Rightarrow> nat \<Rightarrow> jsstring \<Rightarrow> walk_state" where
  "onStdout fuel lib np pf st i d =
     (let st1 = cmdCallback fuel lib np pf st i None d False
      in st1\<lparr>roots := (roots st1)[i := (roots st1 ! i)\<lparr>gotDataW := True\<rparr>]\<rparr>)"

definition onStderr :: "walk_state \<Rightarrow> nat \<Rightarrow> jsstring \<Rightarrow> walk_state" where
  "onStderr st i d = st\<lparr>roots := (roots st)[i := (roots st ! i)\<lparr>stderrW := stderrW (roots st ! i) @ d\<rparr>]\<rparr>"

definition onData ::
  "nat \<Rightarrow> strings_lib \<Rightarrow> node_path \<Rightarrow> platform \<Rightarrow> walk_state \<Rightarrow> nat \<Rightarrow> walk_error option
     \<Rightarrow> jsstring \<Rightarrow> bool \<Rightarrow> walk_state" where
  "onData fuel lib np pf st i err stdout isLast =
     (if onDataOff (roots st ! i) then st
      else cmdCallback fuel lib np pf
             (if err \<noteq> None \<or> isLast
              then st\<lparr>roots := (roots st)[i := (roots st ! i)\<lparr>onDataOff := True\<rparr>]\<rparr> else st)
             i err stdout isLast)"

definition closeFails :: "(jsstring \<Rightarrow> jsstring) \<Rightarrow> bool \<Rightarrow> cmd_state \<Rightarrow> int \<Rightarrow> bool" where
  "closeFails toUpperCase isRipgrep r code =
     (if isRipgrep
      then \<not> gotDataW r \<and> truthy (stderrW r)
           \<and> (case rgErrorMsgForDisplay toUpperCase (stderrW r) of None \<Rightarrow> False | Some m \<Rightarrow> truthy m)
      else code \<noteq> 0)"

definition onProcClose ::
  "nat \<Rightarrow> strings_lib \<Rightarrow> node_path \<Rightarrow> (jsstring \<Rightarrow> jsstring) \<Rightarrow> platform \<Rightarrow> walk_state \<Rightarrow> nat \<Rightarrow> int
     \<Rightarrow> walk_state" where
  "onProcClose fuel lib np toUpperCase pf st i code =
     (let r = roots st ! i; w = walker st; isRipgrep = FileWalker.useRipgrep w in
      if closeFails toUpperCase isRipgrep r code
      then onData fuel lib np pf st i (Some (CommandFailed code (stderrW r))) [] False
      else
        onData fuel lib np pf
          (if isRipgrep \<and> FileWalker.exists w \<and> code = 0
           then st\<lparr>walker := w\<lparr>isLimitHit := True\<rparr>\<rparr> else st)
          i None [] True)"

text \<open>
  The Node traversal reads the file system through nested callbacks. Of it the model keeps
  the callback of \<open>doWalk\<close> that receives the stat of a file which passed the exclude test,
  and the completion of a root, which carries no error.
\<close>

definition onFsFile :: "strings_lib \<Rightarrow> walk_state \<Rightarrow> IRawFileMatch \<Rightarrow> walk_state" where
  "onFsFile lib st candidate =
     (let w = walker st in
      if isCanceled w \<or> isLimitHit w then st
      else
        (let w1 = w\<lparr>filesWalked := filesWalked w + 1\<rparr> in
         if Some (relativePath candidate) = FileWalker.filePattern w1 then st\<lparr>walker := w1\<rparr>
         else if (case (FileWalker.maxFilesize w1, fsize candidate) of
                    (Some m, Some s) \<Rightarrow> s > m | _ \<Rightarrow> False)
           then st\<lparr>walker := w1\<rparr>
         else st\<lparr>walker := matchFile lib w1 candidate\<rparr>))"

datatype walk_event =
    Stdout nat jsstring
  | Stderr nat jsstring
  | ProcError nat jsstring
  | ProcClose nat int
  | FsFile nat IRawFileMatch
  | FsDone nat
  | CancelWalk

definition isCmdTraversal :: "walk_state \<Rightarrow> bool" where
  "isCmdTraversal st = (traversal st \<noteq> Node)"

fun walkStep ::
  "nat \<Rightarrow> strings_lib \<Rightarrow> node_path \<Rightarrow> (jsstring \<Rightarrow> jsstring) \<Rightarrow> platform \<Rightarrow> walk_state \<Rightarrow> walk_event
     \<Rightarrow> walk_state" where
  "walkStep fuel lib np up pf st CancelWalk = st\<lparr>walker := walkerCancel (walker st)\<rparr>"
| "walkStep fuel lib np up pf st (Stdout i d) =
     (if crashed st \<or> \<not> isCmdTraversal st \<or> i \<ge> length (roots st) then st
      else onStdout fuel lib np pf st i d)"
| "walkStep fuel lib np up pf st (Stderr i d) =
     (if crashed st \<or> \<not> isCmdTraversal st \<or> i \<ge> length (roots st) then st
      else onStderr st i d)"
| "walkStep fuel lib np up pf st (ProcError i e) =
     (if crashed st \<or> \<not> isCmdTraversal st \<or> i \<ge> length (roots st) then st
      else onData fuel lib np pf st i (Some (ProcessError e)) [] False)"
| "walkStep fuel lib np up pf st (ProcClose i code) =
     (if crashed st \<or> \<not> isCmdTraversal st \<or> i \<ge> length (roots st) then st
      else onProcClose fuel lib np up pf st i code)"
| "walkStep fuel lib np up pf st (FsFile i candidate) =
     (if crashed st \<or> isCmdTraversal st \<or> i \<ge> length (roots st) then st
      else onFsFile lib st candidate)"
| "walkStep fuel lib np up pf st (FsDone i) =
     (if crashed st \<or> isCmdTraversal st \<or> i \<ge> length (roots st) then st
      else rootDone st i None)"

definition walkRun ::
  "nat \<Rightarrow> strings_lib \<Rightarrow> node_path \<Rightarrow> (jsstring \<Rightarrow> jsstring) \<Rightarrow> platform \<Rightarrow> walk_state \<Rightarrow> walk_event list
     \<Rightarrow> walk_state" where
  "walkRun fuel lib np up pf st evs = foldl (walkStep fuel lib np up pf) st evs"

text \<open>\<open>walk\<close> up to the start of the traversals.\<close>

definition chooseTraversal :: "platform \<Rightarrow> FileWalker \<Rightarrow> Traversal" where
  "chooseTraversal pf w =
     (if FileWalker.maxFilesize w = None then
        (if FileWalker.useRipgrep w then Ripgrep
         else if pf = Macintosh then MacFind
         else if pf = Linux then LinuxFind
         else Node)
      else Node)"

definition walk ::
  "strings_lib \<Rightarrow> node_path \<Rightarrow> platform \<Rightarrow> FileWalker \<Rightarrow> IFolderSearch list \<Rightarrow> jsstring list option
     \<Rightarrow> walk_state" where
  "walk lib np pf w fqs files =
     (if isCanceled w
      then \<lparr>walker = w, traversal = Node, folders = fqs, roots = [],
            finished = Some (None, isLimitHit w), crashed = False\<rparr>
      else
        (let w1 = (case files of None \<Rightarrow> w | Some fs \<Rightarrow> foldl (matchExtraFile lib np) w fs);
             w2 = (if chooseTraversal pf w1 = Node then w1 else w1\<lparr>cmdResultCount := 0\<rparr>)
         in \<lparr>walker = w2, traversal = chooseTraversal pf w1, folders = fqs,
              roots = map (\<lambda>fq. newCmdState) fqs,
              finished = (if fqs = [] then Some (None, isLimitHit w2) else None),
              crashed = False\<rparr>))"

section \<open>The search service (\<open>SearchService\<close>)\<close>

text \<open>
  \<open>doSearch\<close> gathers the matches of the engine in batches and settles when the engine
  calls \<open>done\<close>: the pending batch is handed over, then the promise is rejected with the
  error if there is one and otherwise resolved with the completion. A \<open>batchSize\<close> of zero
  stands for a falsy one. The loop below is its \<open>onResult\<close> over the matches in order,
  followed by the hand-over of the pending batch.
\<close>

fun collectBatches :: "int \<Rightarrow> 'a list \<Rightarrow> 'a list \<Rightarrow> 'a delivery list" where
  "collectBatches bsz pending [] = (if pending \<noteq> [] then [Batch pending] else [])"
| "collectBatches bsz pending (m # ms) =
     (if bsz \<noteq> 0 then
        (let b = pending @ [m] in
         if bsz > 0 \<and> int (length b) \<ge> bsz then Batch b # collectBatches bsz [] ms
         else collectBatches bsz b ms)
      else Single m # collectBatches bsz pending ms)"

definition doSearch :: "int \<Rightarrow> walk_state \<Rightarrow> (IRawFileMatch delivery list \<times> bool settled) option" where
  "doSearch bsz st =
     (case finished st of
        None \<Rightarrow> None
      | Some (err, lh) \<Rightarrow>
          Some (collectBatches bsz [] (results (walker st)),
                (case err of Some e \<Rightarrow> Rejected (WalkFailed e) | None \<Rightarrow> Fulfilled lh)))"

text \<open>The items of the progress stream of a file search: matches by their paths, messages,
  and the terminal item.\<close>

datatype stream_item =
    MatchItem jsstring
  | MatchItems "jsstring list"
  | ProgressMessage
  | Success ISerializedSearchSuccess
  | ErrorItem search_error

definition rawMatchToSearchItem :: "node_path \<Rightarrow> IRawFileMatch \<Rightarrow> jsstring" where
  "rawMatchToSearchItem np m =
     (case base m of
        None \<Rightarrow> relativePath m
      | Some b \<Rightarrow> if truthy b then join np b (relativePath m) else relativePath m)"

text \<open>\<open>fileProgressCallback\<close> of \<open>doFileSearch\<close>: what it passes on, and what it adds to
  \<open>resultCount\<close>.\<close>

definition fileProgress :: "node_path \<Rightarrow> IRawFileMatch delivery \<Rightarrow> stream_item" where
  "fileProgress np d =
     (case d of
        Batch ms \<Rightarrow> MatchItems (map (rawMatchToSearchItem np) ms)
      | Single m \<Rightarrow> if truthy (relativePath m) then MatchItem (rawMatchToSearchItem np m)
                     else ProgressMessage)"

definition counted :: "IRawFileMatch delivery \<Rightarrow> nat" where
  "counted d = (case d of Batch ms \<Rightarrow> length ms
                        | Single m \<Rightarrow> if truthy (relativePath m) then 1 else 0)"

text \<open>
  \<open>fileSearch\<close> without sorting: the stream that the emitter fires for a walk that has
  called \<open>done\<close> (\<open>None\<close> while it has not).
\<close>

definition fileSearch :: "node_path \<Rightarrow> int \<Rightarrow> walk_state \<Rightarrow> stream_item list option" where
  "fileSearch np bsz st =
     (case doSearch bsz st of
        None \<Rightarrow> None
      | Some (items, Rejected e) \<Rightarrow> Some (map (fileProgress np) items @ [ErrorItem e])
      | Some (items, Fulfilled lh) \<Rightarrow>
          Some (map (fileProgress np) items @
                [Success \<lparr>limitHit = lh,
                          stats = \<lparr>fromCache = False, resultCount = sum_list (map counted items)\<rparr>\<rparr>]))"

text \<open>
  The sorted search. The walker runs on \<open>walkerConfig\<close>, the query without its cap;
  \<open>doSortedSearch\<close> takes all results in one batch, sorts and cuts them with \<open>sortResults\<close> and
  sets \<open>limitHit\<close>; \<open>sendProgress\<close> fires the sorted matches in batches.
\<close>

definition walkerConfig :: "IRawSearch \<Rightarrow> IRawSearch" where
  "walkerConfig cfg =
     (case IRawSearch.maxResults cfg of
        None \<Rightarrow> cfg
      | Some k \<Rightarrow> if k \<noteq> 0 then cfg\<lparr>IRawSearch.maxResults := None\<rparr> else cfg)"

definition doSortedSearch ::
  "(IRawSearch \<Rightarrow> IRawFileMatch list \<Rightarrow> IRawFileMatch list) \<Rightarrow> IRawSearch \<Rightarrow> walk_state
     \<Rightarrow> (ISerializedSearchSuccess \<times> IRawFileMatch list) settled option" where
  "doSortedSearch sortTop cfg st =
     (case doSearch (-1) st of
        None \<Rightarrow> None
      | Some (items, Rejected e) \<Rightarrow> Some (Rejected e)
      | Some (items, Fulfilled lh) \<Rightarrow>
          (let rs = (case items of Batch ms # _ \<Rightarrow> ms | _ \<Rightarrow> []);
               sortedResults = sortTop cfg rs
           in Some (Fulfilled
                (\<lparr>limitHit = (lh \<or> exceeds (length rs) (IRawSearch.maxResults cfg)),
                  stats = \<lparr>fromCache = False, resultCount = length sortedResults\<rparr>\<rparr>,
                 sortedResults))))"

function slices :: "nat \<Rightarrow> 'a list \<Rightarrow> 'a list list" where
  "slices n xs = (if n = 0 \<or> xs = [] then [] else take n xs # slices n (drop n xs))"
  by pat_completeness auto
termination
  by (relation "measure (\<lambda>(n, xs). length xs)") auto

declare slices.simps [simp del]

definition sendProgress :: "int \<Rightarrow> jsstring list \<Rightarrow> stream_item list" where
  "sendProgress bsz rs =
     (if bsz > 0 then map MatchItems (slices (nat bsz) rs) else [MatchItems rs])"

definition sortedFileSearch ::
  "node_path \<Rightarrow> (IRawSearch \<Rightarrow> IRawFileMatch list \<Rightarrow> IRawFileMatch list) \<Rightarrow> IRawSearch \<Rightarrow> int
     \<Rightarrow> walk_state \<Rightarrow> stream_item list option" where
  "sortedFileSearch np sortTop cfg bsz st =
     (case doSortedSearch sortTop cfg st of
        None \<Rightarrow> None
      | Some (Rejected e) \<Rightarrow> Some [ErrorItem e]
      | Some (Fulfilled (complete, sortedResults)) \<Rightarrow>
          Some (sendProgress bsz (map (rawMatchToSearchItem np) sortedResults) @ [Success complete]))"

text \<open>The matches on a stream, and the matches in the results that the parser emitted.\<close>

definition streamMatches :: "stream_item list \<Rightarrow> jsstring list" where
  "streamMatches items =
     concat (map (\<lambda>it. case it of MatchItem p \<Rightarrow> [p] | MatchItems ps \<Rightarrow> ps | _ \<Rightarrow> []) items)"

definition resultMatches :: "engine_output list \<Rightarrow> TextSearchResult list" where
  "resultMatches out = concat (map (\<lambda>x. case x of OnResult fm \<Rightarrow> matches fm | _ \<Rightarrow> []) out)"

section \<open>Example queries\<close>

text \<open>A folder query whose exclude expression matches nothing.\<close>

definition plainFolder :: "jsstring \<Rightarrow> bool \<Rightarrow> IFolderSearch" where
  "plainFolder f ns = \<lparr>folder = f, excludeTest = (\<lambda>p b siblings. False), noSiblingsClauses = ns\<rparr>"

text \<open>A text search in one folder with a cap of ten matches.\<close>

definition textQuery :: IRawSearch where
  "textQuery =
     \<lparr>folderQueries = [plainFolder (js ''/r1'') True], extraFiles = [], filePattern = None,
      includePattern = None, excludePattern = None, maxResults = Some 10, exists = False,
      sortByScore = False, cacheKey = None, useRipgrep = Some True, maxFilesize = None,
      siblingExcluded = None\<rparr>"

text \<open>A file search in two folders, listed by the grep binary, with a cap of five files.\<close>

definition twoRootQuery :: IRawSearch where
  "twoRootQuery =
     \<lparr>folderQueries = [plainFolder (js ''/r1'') True, plainFolder (js ''/r2'') True], extraFiles = [],
      filePattern = None, includePattern = None, excludePattern = None, maxResults = Some 5,
      exists = False, sortByScore = False, cacheKey = None, useRipgrep = None, maxFilesize = None,
      siblingExcluded = None\<rparr>"

text \<open>The output of the child for one file with one match in its first line.\<close>

definition oneMatchOutput :: jsstring where
  "oneMatchOutput =
     MATCH_END_MARKER @ js ''/f'' @ MATCH_END_MARKER @ [LF] @ MATCH_END_MARKER @ js ''1''
       @ MATCH_END_MARKER @ js '':'' @ MATCH_START_MARKER @ js ''x'' @ MATCH_END_MARKER @ [LF]"

definition oneMatch :: FileMatch where
  "oneMatch = \<lparr>path = js ''/f'', matches = [\<lparr>preview = js ''x'',
       range = \<lparr>startLineNumber = 0, startColumn = 0, endLineNumber = 0, endColumn = 1\<rparr>\<rparr>]\<rparr>"

text \<open>A file walk on Linux from a new walker, and a text search from \<open>search\<close>, over the
  events that follow.\<close>

definition fileWalk :: "IRawSearch \<Rightarrow> walk_event list \<Rightarrow> walk_state" where
  "fileWalk cfg evs =
     walkRun 10 asciiStrings plainPath asciiUpper Linux
       (walk asciiStrings plainPath Linux (newFileWalker asciiStrings cfg) (folderQueries cfg)
          (Some (extraFiles cfg))) evs"

definition textSearch :: "IRawSearch \<Rightarrow> engine_event list \<Rightarrow> engine_result" where
  "textSearch cfg evs = engineRun plainPath asciiUpper (search cfg) evs"


text \<open>A text search whose child wrote an error of the whitelist to stderr, and one whose
  child wrote a warning before it.\<close>

definition regexError :: jsstring where
  "regexError = js ''Error parsing regex near x''"

definition warnedError :: jsstring where
  "warnedError = js ''warning'' @ [LF] @ js ''Error parsing regex near x''"

section \<open>Invariants of a walk\<close>

text \<open>
  A property of the walker is kept by a walk when \<open>matchFile\<close> keeps it, when it does not
  depend on the counters, the error list and the cancel flag, and when setting the limit
  flag of a walker with the \<open>exists\<close> flag keeps it.
\<close>

definition kept :: "strings_lib \<Rightarrow> (FileWalker \<Rightarrow> bool) \<Rightarrow> bool" where
  "kept lib P =
     ((\<forall>w c. P w \<longrightarrow> P (matchFile lib w c))
      \<and> (\<forall>w n. P w \<longrightarrow> P (w\<lparr>cmdResultCount := n\<rparr>))
      \<and> (\<forall>w n. P w \<longrightarrow> P (w\<lparr>directoriesWalked := n\<rparr>))
      \<and> (\<forall>w n. P w \<longrightarrow> P (w\<lparr>filesWalked := n\<rparr>))
      \<and> (\<forall>w es. P w \<longrightarrow> P (w\<lparr>errors := es\<rparr>))
      \<and> (\<forall>w b. P w \<longrightarrow> P (w\<lparr>isCanceled := b\<rparr>))
      \<and> (\<forall>w. P w \<longrightarrow> FileWalker.exists w \<longrightarrow> P (w\<lparr>isLimitHit := True\<rparr>)))"

text \<open>With a cap \<open>K\<close> and without the \<open>exists\<close> flag: the walker has reported the first \<open>K\<close>
  of the candidates it counted, and the limit flag tells whether it counted more.\<close>

definition capInv :: "nat \<Rightarrow> FileWalker \<Rightarrow> bool" where
  "capInv K w =
     (FileWalker.maxResults w = Some K \<and> K \<noteq> 0 \<and> \<not> FileWalker.exists w
      \<and> length (results w) = min (resultCount w) K
      \<and> isLimitHit w = (K < resultCount w))"

text \<open>With the \<open>exists\<close> flag: nothing is reported, and the limit flag is set once a
  candidate was counted.\<close>

definition existsInv :: "FileWalker \<Rightarrow> bool" where
  "existsInv w =
     (FileWalker.exists w \<and> results w = [] \<and> (resultCount w = 0 \<or> isLimitHit w))"

section \<open>Proofs\<close>

subsection \<open>Splitting into lines\<close>

lemma LF_neq_CR [simp]: "LF \<noteq> CR" "CR \<noteq> LF"
  by (simp_all add: LF_def CR_def)

lemma consHead_nonempty: "consHead c xs \<noteq> []"
  by (cases xs) auto

lemma splitLines_nonempty: "splitLines s \<noteq> []"
  by (induction s rule: splitLines.induct) (auto simp: consHead_nonempty)

lemma butlast_consHead: "xs \<noteq> [] \<Longrightarrow> length xs > 1 \<Longrightarrow> butlast (consHead c xs) = consHead c (butlast xs)"
  by (cases xs) (auto split: list.splits)

lemma splitLines_LF: "splitLines (LF # b) = [] # splitLines b"
  by (cases b) (auto simp: LF_def CR_def)

lemma splitLines_Cons_plain:
  "c \<noteq> LF \<Longrightarrow> \<not> (c = CR \<and> (\<exists>bs. b = LF # bs)) \<Longrightarrow> splitLines (c # b) = consHead c (splitLines b)"
  by (cases b) (auto)

lemma consHead_append: "xs \<noteq> [] \<Longrightarrow> consHead c (xs @ ys) = consHead c xs @ ys"
  by (cases xs) auto

lemma last_consHead: "length xs > 1 \<Longrightarrow> last (consHead c xs) = last xs"
  by (cases xs) auto

lemma consHead_single: "consHead c xs = [p] \<Longrightarrow> xs \<noteq> [] \<Longrightarrow> \<exists>q. xs = [q] \<and> p = c # q"
  by (cases xs) auto

lemma splitLines_single_no_LF: "splitLines s = [p] \<Longrightarrow> p = s"
proof (induction s arbitrary: p rule: splitLines.induct)
  case 1 then show ?case by simp
next
  case (2 c) then show ?case by (auto split: if_splits)
next
  case (3 c d cs)
  have ne: "splitLines cs \<noteq> []" "splitLines (d # cs) \<noteq> []" by (rule splitLines_nonempty)+
  show ?case
  proof (cases "(c = CR \<and> d = LF) \<or> c = LF")
    case True
    with 3(4) ne show ?thesis by (auto split: if_splits)
  next
    case False
    with 3(4) have "consHead c (splitLines (d # cs)) = [p]" by (auto split: if_splits)
    from consHead_single[OF this ne(2)] obtain q where q: "splitLines (d # cs) = [q]" "p = c # q" by blast
    with 3(3)[of q] False show ?thesis by auto
  qed
qed

lemma splitLines_append:
  "splitLines (a @ b) = butlast (splitLines a) @ splitLines (last (splitLines a) @ b)"
proof (induction a rule: splitLines.induct)
  case 1 show ?case by simp
next
  case (2 c)
  show ?case by (auto simp: splitLines_LF)
next
  case (3 c d cs)
  show ?case
  proof (cases "c = CR \<and> d = LF")
    case True
    with 3 show ?thesis by (simp add: splitLines_nonempty)
  next
    case nCRLF: False
    show ?thesis
    proof (cases "c = LF")
      case True
      with 3 nCRLF show ?thesis by (simp add: splitLines_nonempty)
    next
      case False
      let ?S = "splitLines (d # cs)"
      have IH: "splitLines ((d # cs) @ b) = butlast ?S @ splitLines (last ?S @ b)"
        using 3 nCRLF False by simp
      have L: "splitLines ((c # d # cs) @ b) = consHead c (splitLines ((d # cs) @ b))"
        using nCRLF False by auto
      have A: "splitLines (c # d # cs) = consHead c ?S" using nCRLF False by auto
      show ?thesis
      proof (cases "length ?S > 1")
        case True
        then have "butlast ?S \<noteq> []" by (cases ?S) auto
        then show ?thesis
          by (simp add: L IH A butlast_consHead[OF splitLines_nonempty True] last_consHead[OF True] consHead_append
                   del: splitLines.simps append_Cons)
      next
        case False
        then obtain p where p: "?S = [p]" using splitLines_nonempty[of "d # cs"]
          by (cases ?S) auto
        then have pd: "p = d # cs" by (rule splitLines_single_no_LF)
        have "splitLines (c # (d # cs) @ b) = consHead c (splitLines ((d # cs) @ b))"
          using nCRLF \<open>c \<noteq> LF\<close> by auto
        then show ?thesis using p pd A by simp
      qed
    qed
  qed
qed

lemma handleLine_empty: "handleLine np p [] = Inr p"
  by (simp add: handleLine_def trim_def matchResultRegex_def matchFileRegex_def MATCH_END_MARKER_def)

lemma handleLines_done: "isDone p \<Longrightarrow> handleLines np p ls = Inr p"
  by (cases ls) auto

lemma handleLines_append:
  "handleLines np p (xs @ ys) =
     (case handleLines np p xs of Inl e \<Rightarrow> Inl e | Inr p' \<Rightarrow> handleLines np p' ys)"
  by (induction xs arbitrary: p) (auto simp: handleLines_done split: sum.splits)

lemma handleLines_empty_line: "handleLines np p [[]] = Inr p"
  by (simp add: handleLine_empty)


lemma handleMatchLine_remainder:
  "handleMatchLine np (p\<lparr>remainder := r\<rparr>) n t =
     map_sum id (\<lambda>q. q\<lparr>remainder := r\<rparr>) (handleMatchLine np p n t)"
  by (auto simp add: handleMatchLine_def Let_def onResult_def cancel_def getFileMatch_def
           split: option.splits list.splits)

lemma handleLine_remainder:
  "handleLine np (p\<lparr>remainder := r\<rparr>) l =
     map_sum id (\<lambda>q. q\<lparr>remainder := r\<rparr>) (handleLine np p l)"
  by (auto simp add: handleLine_def Let_def handleMatchLine_remainder onResult_def getFileMatch_def
           split: option.splits prod.splits)

lemma handleLines_remainder:
  "handleLines np (p\<lparr>remainder := r\<rparr>) ls =
     map_sum id (\<lambda>q. q\<lparr>remainder := r\<rparr>) (handleLines np p ls)"
proof (induction ls arbitrary: p)
  case Nil show ?case by simp
next
  case (Cons l ls)
  show ?case
  proof (cases "isDone p")
    case True then show ?thesis by simp
  next
    case False
    show ?thesis
    proof (cases "handleLine np p l")
      case (Inl e) with False show ?thesis by (simp add: handleLine_remainder)
    next
      case (Inr q)
      with False Cons[of q] show ?thesis by (simp add: handleLine_remainder)
    qed
  qed
qed

lemma handleLines_snoc_empty: "handleLines np p (ls @ [[]]) = handleLines np p ls"
  by (simp add: handleLines_append handleLine_empty split: sum.splits)

lemma handleDecodedData_normal:
  "handleDecodedData np p a =
     map_sum id (\<lambda>q. q\<lparr>remainder := toRemainder (last (splitLines (carried p @ a)))\<rparr>)
       (handleLines np p (butlast (splitLines (carried p @ a))))"
proof -
  let ?L = "splitLines (carried p @ a)"
  have ds: "(case remainder p of Some r \<Rightarrow> if truthy r then r @ a else a | None \<Rightarrow> a) = carried p @ a"
    by (simp add: carried_def truthy_def split: option.splits)
  have ne: "?L \<noteq> []" by (rule splitLines_nonempty)
  show ?thesis
  proof (cases "last ?L = []")
    case True
    have "?L = butlast ?L @ [[]]" using ne True by (metis append_butlast_last_id)
    then have "handleLines np (p\<lparr>remainder := None\<rparr>) ?L = handleLines np (p\<lparr>remainder := None\<rparr>) (butlast ?L)"
      by (metis handleLines_snoc_empty)
    then show ?thesis using True
      by (simp add: handleDecodedData_def ds Let_def truthy_def toRemainder_def handleLines_remainder)
  next
    case False
    then show ?thesis
      by (simp add: handleDecodedData_def ds Let_def truthy_def toRemainder_def handleLines_remainder)
  qed
qed

lemma map_sum_remainder_twice:
  "map_sum id (\<lambda>q. q\<lparr>remainder := r2\<rparr>) (map_sum id (\<lambda>q. q\<lparr>remainder := r1\<rparr>) x)
     = map_sum id (\<lambda>q. q\<lparr>remainder := r2\<rparr>) x"
  by (cases x) simp_all

lemma carried_toRemainder: "carried (q\<lparr>remainder := toRemainder s\<rparr>) = s"
  by (simp add: carried_def toRemainder_def)

lemma handleDecodedData_append:
  "(case handleDecodedData np p a of Inl e \<Rightarrow> Inl e | Inr p1 \<Rightarrow> handleDecodedData np p1 b)
     = handleDecodedData np p (a @ b)"
proof -
  let ?L1 = "splitLines (carried p @ a)"
  let ?L2 = "splitLines (last ?L1 @ b)"
  have L: "splitLines (carried p @ a @ b) = butlast ?L1 @ ?L2"
    using splitLines_append[of "carried p @ a" b] by simp
  have ne2: "?L2 \<noteq> []" by (rule splitLines_nonempty)
  have bl: "butlast (butlast ?L1 @ ?L2) = butlast ?L1 @ butlast ?L2"
    using ne2 by (simp add: butlast_append)
  have la: "last (butlast ?L1 @ ?L2) = last ?L2" using ne2 by simp
  show ?thesis
  proof (cases "handleLines np p (butlast ?L1)")
    case (Inl e)
    then show ?thesis
      by (simp add: handleDecodedData_normal[of np p a] handleDecodedData_normal[of np p "a @ b"]
                    L bl la handleLines_append)
  next
    case (Inr q)
    then show ?thesis
      by (simp add: handleDecodedData_normal[of np p a] handleDecodedData_normal[of np p "a @ b"]
                    handleDecodedData_normal[of np "q\<lparr>remainder := toRemainder (last ?L1)\<rparr>" b]
                    carried_toRemainder L bl la handleLines_append handleLines_remainder
                    map_sum_remainder_twice
               split: sum.splits)
  qed
qed

lemma handleChunks_concat:
  "chunks \<noteq> [] \<Longrightarrow> handleChunks np p chunks = handleDecodedData np p (concat chunks)"
proof (induction chunks arbitrary: p)
  case Nil then show ?case by simp
next
  case (Cons c cs)
  show ?case
  proof (cases "cs = []")
    case True then show ?thesis by (simp split: sum.splits)
  next
    case False
    have "handleChunks np p (c # cs) =
          (case handleDecodedData np p c of Inl e \<Rightarrow> Inl e | Inr p' \<Rightarrow> handleDecodedData np p' (concat cs))"
      using Cons.IH[OF False] by (simp split: sum.splits)
    also have "\<dots> = handleDecodedData np p (c @ concat cs)" by (rule handleDecodedData_append)
    finally show ?thesis by simp
  qed
qed

lemma handleDecodedData_fresh_empty:
  "remainder p = None \<Longrightarrow> handleDecodedData np p [] = Inr p"
  by (simp add: handleDecodedData_def truthy_def handleLine_empty)

subsection \<open>Chunk boundaries\<close>

text \<open>
  Claim C6. The grep output parser is insensitive to chunk boundaries: for every decoded
  output string and every partition of it into chunks, feeding the chunks to a new parser
  one at a time and then flushing gives the same result as feeding the whole string as a
  single chunk and flushing: the same events (file matches with their ranges, and the
  hit-limit event) in the same order, and the same final state of the parser, or the same
  throw after the same events.
\<close>

theorem chunk_insensitive:
  "parseChunks np (newRipgrepParser maxR root files) chunks
     = parseChunks np (newRipgrepParser maxR root files) [concat chunks]"
proof (cases "chunks = []")
  case True
  then show ?thesis
    by (simp add: parseChunks_def handleDecodedData_fresh_empty newRipgrepParser_def)
next
  case False
  then show ?thesis
    by (simp add: parseChunks_def handleChunks_concat split: sum.splits)
qed

text \<open>Running the model on a concrete input: the definitions to unfold.\<close>

lemmas js_defs = js_def LF_def CR_def truthy_def trim_def isTrimChar_def substr_def sliceIndex_def
  slice_def sliceFrom_def startsWith_def stripUTF8BOM_def MATCH_START_MARKER_def MATCH_END_MARKER_def
  isDigit_def isLineTerminator_def notLineTerminator_def matchResultRegex_def matchFileRegex_def
  parseInt_def newRange_def

lemmas parser_defs = reached_def newRipgrepParser_def cancel_def onResult_def getFileMatch_def scanStart_def
  handleMatchLine_def handleLine_def handleDecodedData_def flush_def parseChunks_def Let_def
  scanMatchLine.simps plainPath_def

theorem chunk_insensitive_witness:
  "parseChunks plainPath (newRipgrepParser (Some 10) [47] []) exampleChunks
     = parseChunks plainPath (newRipgrepParser (Some 10) [47] []) [concat exampleChunks]
   \<and> parseChunks plainPath (newRipgrepParser (Some 10) [47] []) exampleChunks
     = Inr ((newRipgrepParser (Some 10) [47] [])\<lparr>numResults := 1, emitted :=
         [Result \<lparr>path = js ''/f'', matches = [\<lparr>preview = js ''x'',
            range = \<lparr>startLineNumber = 0, startColumn = 0, endLineNumber = 0, endColumn = 1\<rparr>\<rparr>]\<rparr>]\<rparr>)"
  using chunk_insensitive[of plainPath "Some 10" "[47]" "[]" exampleChunks]
  by (simp add: js_defs parser_defs exampleChunks_def)

subsection \<open>The empty query\<close>

text \<open>
  Claim C10. For every text-search query whose folder-query list and extra-files list are
  both empty, \<open>RipgrepEngine.search\<close> spawns no child process, emits no match items, and
  reports at once a success terminal with \<open>limitHit = false\<close>: the only thing it does to the
  outside is that call of \<open>done\<close>, and neither a child nor a parser is created.
\<close>

theorem empty_query_search:
  "folderQueries cfg = [] \<Longrightarrow> extraFiles cfg = [] \<Longrightarrow>
     outs (search cfg) = [Done None False] \<and> \<not> rgProc (search cfg) \<and> ripgrepParser (search cfg) = None"
  by (simp add: search_def newRipgrepEngine_def)

theorem empty_query_search_witness:
  "folderQueries emptyQuery = []
   \<and> extraFiles emptyQuery = []
   \<and> outs (search emptyQuery)
       = [Done None False]"
  using empty_query_search[of emptyQuery]
  by (simp add: emptyQuery_def)

subsection \<open>The batched collector\<close>





subsection \<open>The prefix cache\<close>









subsection \<open>Running the drivers\<close>

lemma splitStr_Nil: "sp \<noteq> [] \<Longrightarrow> splitStr sp [] = [[]]"
  by (simp add: splitStr.simps)

lemma splitStr_Cons:
  "sp \<noteq> [] \<Longrightarrow> splitStr sp (c # cs) =
     (if prefix sp (c # cs) then [] # splitStr sp (drop (length sp) (c # cs))
      else consHead c (splitStr sp cs))"
  by (subst splitStr.simps) simp

lemma splitStr_nonempty: "sp \<noteq> [] \<Longrightarrow> splitStr sp s \<noteq> []"
  by (induction sp s rule: splitStr.induct) (subst splitStr.simps, auto simp: consHead_nonempty)

lemmas engine_defs = textSearch_def search_def newRipgrepEngine_def engineCancel_def onParserResult_def
  onParserHitLimit_def callParser_def onStdoutData_def onStderrData_def onClose_def outputs_def
  rgErrorMsgForDisplay_def uppercaseFirstLetter_def literalNewlineNotAllowed_def
  literalNewlineNotSupported_def asciiUpper_def splitStr_Nil splitStr_Cons textQuery_def
  oneMatchOutput_def oneMatch_def regexError_def warnedError_def

lemmas walker_defs = fileWalk_def walkRun_def walk_def newFileWalker_def orNull_def walkerCancel_def
  isFilePatternMatch_def overCap_def matchFile_def matchExtraFile_def newCmdState_def
  firstError_def rootDone_def chunkFiles_def cmdCallbackBody_def cmdCallback_def onStdout_def onStderr_def onData_def
  closeFails_def onProcClose_def onFsFile_def isCmdTraversal_def chooseTraversal_def
  plainFolder_def asciiStrings_def asciiLower_def List.map_filter_def splitStr_Nil splitStr_Cons
  indexOf_def plainPath_def Let_def twoRootQuery_def

text \<open>
  Claim C3 says that no match item is emitted once cancellation has been requested, by the
  file walker and by the grep parser, the flush after the close of the child included. The
  code emits one in both: \<open>RipgrepParser.flush\<close> hands over the pending file match without
  reading \<open>isDone\<close>, which the loop of \<open>handleDecodedData\<close> does read, and \<open>cmdTraversal\<close>
  never reads \<open>isCanceled\<close>, which the Node traversal reads at every callback. In the text
  search below the child has printed one match when the caller cancels, and the close of the
  child then delivers the file match; in the file search the listing of the first root goes
  on after the cancellation and its next file is reported.
\<close>

theorem cancel_then_match:
  "outputs (textSearch textQuery [StdoutData oneMatchOutput, CancelRequested])
     = [OnCommandLine, Spawn, Kill]
   \<and> outputs (textSearch textQuery [StdoutData oneMatchOutput, CancelRequested, Close 0])
     = [OnCommandLine, Spawn, Kill, OnResult oneMatch]
   \<and> isCanceled (walker (fileWalk twoRootQuery [Stdout 0 (js ''a'' @ [LF]), CancelWalk]))
   \<and> map relativePath (results (walker (fileWalk twoRootQuery [Stdout 0 (js ''a'' @ [LF]), CancelWalk])))
     = [js ''a'']
   \<and> map relativePath (results (walker (fileWalk twoRootQuery
         [Stdout 0 (js ''a'' @ [LF]), CancelWalk, Stdout 0 (js ''b'' @ [LF])])))
     = [js ''a'', js ''b'']"
  by (simp add: engine_defs walker_defs js_defs parser_defs)


subsection \<open>The close of the child\<close>








end
